theory Spec2Isabelle
  imports Main
begin

section \<open>Python values, errors and small string helpers\<close>

text \<open>
  The exceptions the modelled code can raise. \<open>AnnotationError\<close> is the module's own
  exception class; the others are Python's built-in exceptions, with a word on what
  raised them. \<open>NotModelled\<close> marks library behaviour this development leaves out (it is
  never the value of a path a theorem below speaks about).
\<close>

datatype message = Text string | TextSet string "string set"
  \<comment> \<open>\<open>TextSet p S\<close>: the text \<open>p\<close> followed by Python's rendering of the set \<open>S\<close>\<close>

datatype error =
    AnnotationError message
  | TypeError string
  | KeyError string
  | IndexError string
  | ValueError string
  | AttributeError string
  | UnboundLocalError string
  | SyntaxError
  | NotModelled string

text \<open>Sequencing of fallible steps: the first exception ends the computation.\<close>

definition and_then :: "error + 'a \<Rightarrow> ('a \<Rightarrow> error + 'b) \<Rightarrow> error + 'b" where
  "and_then r f = (case r of Inl e \<Rightarrow> Inl e | Inr x \<Rightarrow> f x)"

lemma and_then_simps [simp]:
  "and_then (Inl e) f = Inl e"
  "and_then (Inr x) f = f x"
  by (simp_all add: and_then_def)

text \<open>
  The Python values an annotation can be. Hashable keys of a dict are a type of their
  own, so that a dict is a map; \<open>PObject c\<close> is an instance of a class \<open>c\<close> that is
  neither a \<open>collections.abc.Sequence\<close> nor a \<open>collections.abc.Mapping\<close>.
\<close>

datatype pykey = KNone | KInt int | KStr string | KTuple "pykey list"

datatype pyval =
    PNone
  | PInt int
  | PStr string
  | PTuple "pyval list"
  | PList "pyval list"
  | PDict "pykey \<Rightarrow> pyval option"
  | PObject string

abbreviation NL :: char where "NL \<equiv> CHR 0x0A"
abbreviation TAB :: char where "TAB \<equiv> CHR 0x09"
abbreviation QUOTE :: char where "QUOTE \<equiv> CHR 0x27"

text \<open>\<open>str.startswith\<close> and \<open>sep.join(xs)\<close>.\<close>

definition startswith :: "string \<Rightarrow> string \<Rightarrow> bool" where
  "startswith s p = (take (length p) s = p)"

fun join :: "string \<Rightarrow> string list \<Rightarrow> string" where
  "join sep [] = []"
| "join sep [x] = x"
| "join sep (x # y # ys) = x @ sep @ join sep (y # ys)"

text \<open>\<open>'{0}'.format(type(v))\<close>: the text \<open><class 'name'>\<close>.\<close>

definition class_repr :: "string \<Rightarrow> string" where
  "class_repr c = ''<class '' @ [QUOTE] @ c @ [QUOTE] @ ''>''"

fun type_repr :: "pyval \<Rightarrow> string" where
  "type_repr PNone = class_repr ''NoneType''"
| "type_repr (PInt _) = class_repr ''int''"
| "type_repr (PStr _) = class_repr ''str''"
| "type_repr (PTuple _) = class_repr ''tuple''"
| "type_repr (PList _) = class_repr ''list''"
| "type_repr (PDict _) = class_repr ''dict''"
| "type_repr (PObject c) = class_repr c"

text \<open>
  \<open>isinstance(v, collections.abc.Sequence)\<close>, with the items iteration yields: a string
  iterates over its characters, each a string of length one.
\<close>

fun sequence_items :: "pyval \<Rightarrow> pyval list option" where
  "sequence_items (PStr s) = Some (map (\<lambda>c. PStr [c]) s)"
| "sequence_items (PTuple xs) = Some xs"
| "sequence_items (PList xs) = Some xs"
| "sequence_items _ = None"

fun is_mapping :: "pyval \<Rightarrow> bool" where
  "is_mapping (PDict _) = True"
| "is_mapping _ = False"

text \<open>\<open>dict(pairs)\<close> for string keys: a later pair overrides an earlier one.\<close>

definition dict_of_pairs :: "(string \<times> pyval) list \<Rightarrow> (pykey \<Rightarrow> pyval option)" where
  "dict_of_pairs ps = fold (\<lambda>(k, v) m. m(KStr k \<mapsto> v)) ps Map.empty"

section \<open>AnnotatedTestCase: normalising and validating the annotation\<close>

definition REQUIRED_KEYS :: "string list" where
  "REQUIRED_KEYS = [''message'', ''advice'']"

text \<open>\<open>AnnotatedTestCase._coerce_annotation_dict\<close>.\<close>

definition coerce_annotation_dict :: "pyval \<Rightarrow> error + pyval" where
  "coerce_annotation_dict annotation =
     (case sequence_items annotation of
        Some items \<Rightarrow> Inr (PDict (dict_of_pairs (zip REQUIRED_KEYS items)))
      | None \<Rightarrow>
          if is_mapping annotation then Inr annotation
          else Inl (AnnotationError
                 (Text (''Annotation type not supported: '' @ type_repr annotation))))"

text \<open>
  \<open>AnnotatedTestCase._validate_annotation\<close>: \<open>required.difference(set(annotation.keys()))\<close>
  is the set of required keys the mapping lacks. A value without \<open>keys()\<close> raises
  AttributeError.
\<close>

definition missing_keys :: "(pykey \<Rightarrow> pyval option) \<Rightarrow> string set" where
  "missing_keys m = Set.filter (\<lambda>k. m (KStr k) = None) (set REQUIRED_KEYS)"

definition validate_annotation :: "pyval \<Rightarrow> error + unit" where
  "validate_annotation annotation =
     (case annotation of
        PDict m \<Rightarrow>
          (let missing = missing_keys m in
           if missing \<noteq> {}
           then Inl (AnnotationError (TextSet ''Annotation missing required fields: '' missing))
           else Inr ())
      | _ \<Rightarrow> Inl (AttributeError ''keys''))"

section \<open>AnnotatedTestCase.__getattribute__: the wrapper around assert methods\<close>

text \<open>
  An assertion method takes positional arguments and keyword arguments and acts on the
  rest of the world \<open>'w\<close> (it may record a failure, raise, or return).
\<close>

type_synonym kwargs = "string \<Rightarrow> pyval option"
type_synonym 'w assertion = "pyval list \<Rightarrow> kwargs \<Rightarrow> 'w \<Rightarrow> (error + pyval) \<times> 'w"

text \<open>
  The first half of \<open>wrapper\<close> (from \<open>required_keys = ...\<close> to the last
  \<open>annotation = ...\<close>): which annotation is taken, and what is left of \<open>args\<close> and
  \<open>kwargs\<close>. \<open>kwargs.pop(key)\<close> removes the key; \<open>args[-1]\<close> of an empty tuple raises
  IndexError.
\<close>

definition keyword_bundle :: "kwargs \<Rightarrow> string set \<Rightarrow> (pykey \<Rightarrow> pyval option)" where
  "keyword_bundle kwargs provided_keys =
     (\<lambda>k. case k of KStr s \<Rightarrow> (if s \<in> provided_keys then kwargs s else None) | _ \<Rightarrow> None)"

definition select_annotation ::
  "pyval list \<Rightarrow> kwargs \<Rightarrow> error + (pyval \<times> pyval list \<times> kwargs)" where
  "select_annotation args kwargs =
     (let required_keys = set REQUIRED_KEYS;
          provided_keys = dom kwargs \<inter> required_keys
      in if provided_keys \<noteq> {} then
           (let bundle = PDict (keyword_bundle kwargs provided_keys)
            in and_then (coerce_annotation_dict bundle)
                 (\<lambda>annotation. Inr (annotation, args, kwargs |` (- provided_keys))))
         else
           (case kwargs ''msg'' of
              Some msg \<Rightarrow>
                and_then (coerce_annotation_dict msg)
                  (\<lambda>annotation. Inr (annotation, args, kwargs(''msg'' := None)))
            | None \<Rightarrow>
                (case args of
                   [] \<Rightarrow> Inl (IndexError ''tuple index out of range'')
                 | _ \<Rightarrow>
                     and_then (coerce_annotation_dict (last args))
                       (\<lambda>annotation. Inr (annotation, butlast args, kwargs)))))"

text \<open>
  \<open>wrapper\<close>: validate, then \<open>attr(*args, msg=annotation, **kwargs)\<close>; a \<open>msg\<close> still
  among the keyword arguments makes that call a TypeError before \<open>attr\<close> runs.
\<close>

definition wrapper :: "'w assertion \<Rightarrow> 'w assertion" where
  "wrapper attr args kwargs w =
     (case select_annotation args kwargs of
        Inl e \<Rightarrow> (Inl e, w)
      | Inr (annotation, args', kwargs') \<Rightarrow>
          (case validate_annotation annotation of
             Inl e \<Rightarrow> (Inl e, w)
           | Inr _ \<Rightarrow>
               if ''msg'' \<in> dom kwargs'
               then (Inl (TypeError ''got multiple values for keyword argument msg''), w)
               else attr args' (kwargs'(''msg'' \<mapsto> annotation)) w))"

text \<open>
  \<open>__getattribute__\<close>: a callable attribute whose name starts with \<open>assert\<close> is
  returned wrapped, anything else as it is.
\<close>

definition getattribute :: "string \<Rightarrow> bool \<Rightarrow> 'w assertion \<Rightarrow> 'w assertion" where
  "getattribute key is_callable attr =
     (if is_callable \<and> startswith key ''assert'' then wrapper attr else attr)"


section \<open>What the failure object reads: call stack, source lines, syntax tree\<close>

text \<open>
  A dict of local variables is an object in a store: \<open>heap\<close> maps the address of a dict
  to its items, in insertion order (the order \<open>items()\<close> walks them in), and
  \<open>next_addr\<close> is the first address not yet in use. Names are distinct in a dict the
  interpreter builds. With \<open>capture_locals=True\<close>, \<open>traceback.StackSummary.extract\<close>
  keeps for every local its \<open>repr\<close>, a string.
\<close>

type_synonym locals_dict = "(string \<times> string) list"

text \<open>
  \<open>traceback.FrameSummary\<close>: \<open>name\<close>, \<open>filename\<close>, \<open>lineno\<close> and \<open>locals\<close>, a
  reference to the dict of captured locals, or None for a frame without any local
  variable.
\<close>

record frame =
  f_name :: string
  f_filename :: string
  f_lineno :: int
  f_locals :: "nat option"

text \<open>
  A node of the \<open>ast\<close> tree: whether it is an \<open>ast.stmt\<close>, its \<open>lineno\<close> attribute
  when it has one, and its child nodes in the order \<open>ast.iter_child_nodes\<close> yields them.
\<close>

datatype node = Node (is_stmt: bool) (lineno: "int option") (children: "node list")

text \<open>
  The surroundings of a call. \<open>stack\<close> is what
  \<open>StackSummary.extract(walk_stack(...), capture_locals=True)\<close> yields at that moment,
  innermost frame first; \<open>linecache\<close> gives the lines of a file, each with its newline,
  and no line for a file it cannot read or for the file name None; \<open>ast_parse\<close> is
  \<open>ast.parse\<close>; \<open>wrap\<close> is \<open>textwrap.wrap\<close>.
\<close>

record env =
  stack :: "frame list"
  linecache :: "string option \<Rightarrow> string list"
  ast_parse :: "string \<Rightarrow> error + node"
  wrap :: "string \<Rightarrow> nat \<Rightarrow> string list"

text \<open>
  \<open>ast.walk\<close>: breadth first, from a queue that starts with the root; each node taken
  from the front puts its children at the back.
\<close>

function ast_walk_queue :: "node list \<Rightarrow> node list" where
  "ast_walk_queue [] = []"
| "ast_walk_queue (n # todo) = n # ast_walk_queue (todo @ children n)"
  by pat_completeness auto

lemma children_size: "sum_list (map size (children n)) < size n"
  by (cases n) (simp add: size_list_conv_sum_list)

termination ast_walk_queue
proof (relation "measure (\<lambda>q. sum_list (map size q))")
  show "wf (measure (\<lambda>q. sum_list (map size q)))" by simp
next
  fix n :: node and todo :: "node list"
  show "(todo @ children n, n # todo) \<in> measure (\<lambda>q. sum_list (map size q))"
    using children_size [of n] by simp
qed

definition ast_walk :: "node \<Rightarrow> node list" where
  "ast_walk tree = ast_walk_queue [tree]"

section \<open>Text helpers from the standard library\<close>

text \<open>\<open>str(i)\<close> for an integer and the format specification \<open>4d\<close>.\<close>

definition digit_char :: "nat \<Rightarrow> char" where
  "digit_char d = ''0123456789'' ! d"

fun nat_digits :: "nat \<Rightarrow> string" where
  "nat_digits n = (if n < 10 then [digit_char n] else nat_digits (n div 10) @ [digit_char (n mod 10)])"

declare nat_digits.simps [simp del]

definition str_int :: "int \<Rightarrow> string" where
  "str_int i = (if i < 0 then ''-'' @ nat_digits (nat (- i)) else nat_digits (nat i))"

definition format_4d :: "int \<Rightarrow> string" where
  "format_4d i = replicate (4 - length (str_int i)) CHR '' '' @ str_int i"

text \<open>\<open>text.split('\n')\<close>.\<close>

fun split_nl :: "string \<Rightarrow> string list" where
  "split_nl [] = [[]]"
| "split_nl (c # cs) =
     (if c = NL then [] # split_nl cs
      else (case split_nl cs of l # ls \<Rightarrow> (c # l) # ls | [] \<Rightarrow> [[c]]))"

text \<open>
  \<open>textwrap.dedent\<close>, line by line: a line of blanks and tabs only becomes empty; the
  margin is the longest run of leading blanks and tabs common to the lines that are not
  empty; a line that starts with the margin loses it.
\<close>

definition is_blank :: "char \<Rightarrow> bool" where
  "is_blank c = (c = CHR '' '' \<or> c = TAB)"

definition whitespace_only_sub :: "string \<Rightarrow> string" where
  "whitespace_only_sub l = (if l \<noteq> [] \<and> list_all is_blank l then [] else l)"

fun first_difference :: "string \<Rightarrow> string \<Rightarrow> nat option" where
  "first_difference (x # xs) (y # ys) =
     (if x \<noteq> y then Some 0 else map_option Suc (first_difference xs ys))"
| "first_difference _ _ = None"

definition next_margin :: "string option \<Rightarrow> string \<Rightarrow> string option" where
  "next_margin margin indent =
     (case margin of
        None \<Rightarrow> Some indent
      | Some m \<Rightarrow>
          if startswith indent m then Some m
          else if startswith m indent then Some indent
          else (case first_difference m indent of
                  Some i \<Rightarrow> Some (take i m)
                | None \<Rightarrow> Some m))"

definition remove_margin :: "string \<Rightarrow> string \<Rightarrow> string" where
  "remove_margin margin l = (if startswith l margin then drop (length margin) l else l)"

definition dedent :: "string \<Rightarrow> string" where
  "dedent text =
     (let lines = map whitespace_only_sub (split_nl text);
          indents = map (takeWhile is_blank) (filter (\<lambda>l. l \<noteq> []) lines);
          margin = foldl next_margin None indents
      in case margin of
           None \<Rightarrow> join [NL] lines
         | Some m \<Rightarrow> if m \<noteq> [] then join [NL] (map (remove_margin m) lines) else join [NL] lines)"

text \<open>
  \<open>template.format(**kw)\<close> for templates whose replacement fields are plain names.
  \<open>{{\<close> and \<open>}}\<close> are literal braces; a lone brace is a ValueError; a field with an
  empty or all-digit name asks for a positional argument: there is none (IndexError),
  and an index beyond \<open>PY_SSIZE_T_MAX\<close> (of a 64-bit build) is refused before that
  (ValueError); a name that \<open>kw\<close> does not bind is a KeyError; a bound name is replaced
  by its value, a string. Fields with an attribute, an index, a conversion or a format
  specification are left out.
\<close>

definition PY_SSIZE_T_MAX :: nat where
  "PY_SSIZE_T_MAX = 2 ^ 63 - 1"

definition digit_value :: "char \<Rightarrow> nat" where
  "digit_value c = length (takeWhile (\<lambda>d. d \<noteq> c) ''0123456789'')"

definition index_of_digits :: "string \<Rightarrow> nat" where
  "index_of_digits field = foldl (\<lambda>accumulator c. accumulator * 10 + digit_value c) 0 field"

definition format_field :: "string \<Rightarrow> (string \<times> string) list \<Rightarrow> error + string" where
  "format_field field kw =
     (if \<exists>c \<in> set field. c \<in> set ''{[.!:'' then Inl (NotModelled ''replacement field'')
      else if list_all (\<lambda>c. c \<in> set ''0123456789'') field
      then (if PY_SSIZE_T_MAX < index_of_digits field
            then Inl (ValueError ''Too many decimal digits in format string'')
            else Inl (IndexError ''Replacement index out of range for positional args tuple''))
      else (case map_of kw field of
              None \<Rightarrow> Inl (KeyError field)
            | Some v \<Rightarrow> Inr v))"

fun str_format :: "string \<Rightarrow> (string \<times> string) list \<Rightarrow> error + string"
  and scan_field :: "string \<Rightarrow> string \<Rightarrow> (string \<times> string) list \<Rightarrow> error + string" where
  "str_format [] kw = Inr []"
| "str_format [c] kw =
     (if c = CHR ''{'' then Inl (ValueError ''Single { encountered in format string'')
      else if c = CHR ''}'' then Inl (ValueError ''Single } encountered in format string'')
      else Inr [c])"
| "str_format (c # d # cs) kw =
     (if c = CHR ''{'' then
        (if d = CHR ''{'' then and_then (str_format cs kw) (\<lambda>r. Inr (CHR ''{'' # r))
         else scan_field [] (d # cs) kw)
      else if c = CHR ''}'' then
        (if d = CHR ''}'' then and_then (str_format cs kw) (\<lambda>r. Inr (CHR ''}'' # r))
         else Inl (ValueError ''Single } encountered in format string''))
      else and_then (str_format (d # cs) kw) (\<lambda>r. Inr (c # r)))"
| "scan_field field [] kw = Inl (ValueError ''expected } before end of string'')"
| "scan_field field (c # cs) kw =
     (if c = CHR ''}'' then
        and_then (format_field field kw) (\<lambda>v. and_then (str_format cs kw) (\<lambda>r. Inr (v @ r)))
      else scan_field (field @ [c]) cs kw)"




section \<open>AnnotatedAssertionError\<close>

text \<open>
  The store of locals dicts together with the attributes \<open>__init__\<close> sets on the
  failure object (\<open>u_x\<close> stands for \<open>self._x\<close>).
\<close>

record state =
  heap :: "nat \<Rightarrow> locals_dict"
  next_addr :: nat
  u_annotation :: pyval
  u_msg :: string
  u_locals :: "nat option"
  u_filename :: "string option"
  u_linenumber :: "int option"
  u_assert_expr :: "string option"
  u_formatted_msg :: "string option"

definition IGNORE_LOCALS :: "string list" where
  "IGNORE_LOCALS = [''message'', ''advice'', ''self'']"

text \<open>
  \<open>_META_FORMAT_STRING.format(standardMsg=..., message=..., assert_expr=..., advice=...,
  locals=...)\<close>: the template has these five plain fields once each, so formatting it is
  concatenation.
\<close>

definition META_FORMAT_STRING ::
  "string \<Rightarrow> string \<Rightarrow> string \<Rightarrow> string \<Rightarrow> string \<Rightarrow> string" where
  "META_FORMAT_STRING standardMsg msg_text expr locals_text advice_text =
     standardMsg @ [NL] @ msg_text @ [NL, NL] @ ''Source:'' @ [NL] @ expr @ [NL]
     @ ''Locals:'' @ [NL, TAB] @ locals_text @ [NL] @ ''Advice:'' @ [NL, TAB] @ advice_text @ [NL]
     @ ''    ''"

text \<open>
  \<open>_get_stack\<close>: the first frame whose name starts with \<open>test_\<close> ends the loop;
  \<open>level.locals.copy()\<close> makes a new dict with the same items, and fails on None.
\<close>

fun get_stack_loop :: "frame list \<Rightarrow> state \<Rightarrow> error + state" where
  "get_stack_loop [] s = Inr s"
| "get_stack_loop (level # rest) s =
     (if startswith (f_name level) ''test_'' then
        (case f_locals level of
           None \<Rightarrow> Inl (AttributeError ''copy'')
         | Some a \<Rightarrow>
             Inr (s\<lparr>heap := (heap s)(next_addr s := heap s a),
                    next_addr := Suc (next_addr s),
                    u_locals := Some (next_addr s),
                    u_filename := Some (f_filename level),
                    u_linenumber := Some (f_lineno level)\<rparr>))
      else get_stack_loop rest s)"

definition get_stack :: "env \<Rightarrow> state \<Rightarrow> error + state" where
  "get_stack env s = get_stack_loop (stack env) s"

text \<open>
  The properties \<open>locals\<close>, \<open>filename\<close> and \<open>linenumber\<close>: \<open>not self._x\<close> holds for
  None and for an empty dict, an empty string and zero.
\<close>

definition locals :: "env \<Rightarrow> state \<Rightarrow> error + (nat option \<times> state)" where
  "locals env s =
     (if (case u_locals s of None \<Rightarrow> True | Some a \<Rightarrow> heap s a = [])
      then and_then (get_stack env s) (\<lambda>s'. Inr (u_locals s', s'))
      else Inr (u_locals s, s))"

definition filename :: "env \<Rightarrow> state \<Rightarrow> error + (string option \<times> state)" where
  "filename env s =
     (if (case u_filename s of None \<Rightarrow> True | Some f \<Rightarrow> f = [])
      then and_then (get_stack env s) (\<lambda>s'. Inr (u_filename s', s'))
      else Inr (u_filename s, s))"

definition linenumber :: "env \<Rightarrow> state \<Rightarrow> error + (int option \<times> state)" where
  "linenumber env s =
     (if (case u_linenumber s of None \<Rightarrow> True | Some n \<Rightarrow> n = 0)
      then and_then (get_stack env s) (\<lambda>s'. Inr (u_linenumber s', s'))
      else Inr (u_linenumber s, s))"

text \<open>\<open>linecache.getline\<close>: the empty string for a line number out of range.\<close>

definition getline :: "env \<Rightarrow> string option \<Rightarrow> int \<Rightarrow> string" where
  "getline env file i =
     (let lines = linecache env file
      in if 1 \<le> i \<and> i \<le> int (length lines) then lines ! nat (i - 1) else [])"

text \<open>
  A line as \<open>linecache\<close> gives it: it ends in its only newline.
\<close>

definition newline_terminated :: "string \<Rightarrow> bool" where
  "newline_terminated l = (l \<noteq> [] \<and> last l = NL \<and> NL \<notin> set (butlast l))"

text \<open>
  The loop of \<open>_get_source\<close> over \<open>ast.walk(_tree)\<close>. \<open>statement\<close> is the statement
  node seen last, None while the variable is unbound. At the first node whose \<open>lineno\<close>
  is the line number, the loop ends with the statement's line, \<open>line_range\<close>
  (\<open>range(a, b)\<close> stops before \<open>b\<close>) and \<open>source\<close>; when no node has that line,
  nothing is bound.
\<close>

fun walk_loop ::
  "env \<Rightarrow> string option \<Rightarrow> int option \<Rightarrow> int \<Rightarrow> int \<Rightarrow> node list \<Rightarrow> node option
   \<Rightarrow> error + (int \<times> int list \<times> string list) option" where
  "walk_loop env file line leading following [] statement = Inr None"
| "walk_loop env file line leading following (node # rest) statement =
     (let statement' = (if is_stmt node then Some node else statement)
      in if lineno node \<noteq> None \<and> lineno node = line then
           (case statement' of
              None \<Rightarrow> Inl (UnboundLocalError ''statement'')
            | Some st \<Rightarrow>
                (case lineno st of
                   None \<Rightarrow> Inl (AttributeError ''lineno'')
                 | Some first \<Rightarrow>
                     (case line of
                        None \<Rightarrow> Inl (TypeError ''NoneType + int'')
                      | Some n \<Rightarrow>
                          (let line_range = [first - leading .. n + following - 1];
                               source = map (getline env file) line_range
                           in Inr (Some (first, line_range, source))))))
         else walk_loop env file line leading following rest statement')"

definition format_line :: "char \<Rightarrow> int \<Rightarrow> string \<Rightarrow> string" where
  "format_line prefix i line = '' '' @ [prefix] @ '' '' @ format_4d i @ '' '' @ line"

text \<open>
  \<open>_get_source\<close>. Reading \<open>source\<close> after a loop that bound nothing raises
  UnboundLocalError.
\<close>

definition get_source ::
  "env \<Rightarrow> string option \<Rightarrow> int option \<Rightarrow> int \<Rightarrow> int \<Rightarrow> error + string" where
  "get_source env file line leading following =
     and_then (ast_parse env (concat (linecache env file))) (\<lambda>tree.
     and_then (walk_loop env file line leading following (ast_walk tree) None) (\<lambda>found.
       case found of
         None \<Rightarrow> Inl (UnboundLocalError ''source'')
       | Some (first, line_range, source) \<Rightarrow>
           (let dedented_lines = butlast (split_nl (dedent (concat source)));
                formatted_lines =
                  map (\<lambda>(i, line). format_line (if i = first then CHR ''>'' else CHR '' '') i line)
                    (zip line_range dedented_lines)
            in Inr (join [NL] formatted_lines))))"

text \<open>The property \<open>assert_expr\<close>, with the default \<open>leading=1, following=2\<close>.\<close>

definition assert_expr :: "env \<Rightarrow> state \<Rightarrow> error + (string option \<times> state)" where
  "assert_expr env s =
     (if (case u_assert_expr s of None \<Rightarrow> True | Some t \<Rightarrow> t = [])
      then and_then (filename env s) (\<lambda>(file, s1).
           and_then (linenumber env s1) (\<lambda>(line, s2).
           and_then (get_source env file line 1 2) (\<lambda>text.
             Inr (Some text, s2\<lparr>u_assert_expr := Some text\<rparr>))))
      else Inr (u_assert_expr s, s))"

text \<open>\<open>annotation[key]\<close> and \<open>annotation[key] = v\<close> on the annotation.\<close>

definition getitem :: "pyval \<Rightarrow> string \<Rightarrow> error + pyval" where
  "getitem d key =
     (case d of
        PDict m \<Rightarrow> (case m (KStr key) of None \<Rightarrow> Inl (KeyError key) | Some v \<Rightarrow> Inr v)
      | PObject c \<Rightarrow> Inl (NotModelled ''__getitem__ of an object'')
      | _ \<Rightarrow> Inl (TypeError ''subscript''))"

definition setitem :: "pyval \<Rightarrow> string \<Rightarrow> pyval \<Rightarrow> error + pyval" where
  "setitem d key v =
     (case d of
        PDict m \<Rightarrow> Inr (PDict (m(KStr key \<mapsto> v)))
      | PObject c \<Rightarrow> Inl (NotModelled ''__setitem__ of an object'')
      | _ \<Rightarrow> Inl (TypeError ''item assignment''))"

text \<open>
  \<open>self._annotation[key].format(**self.locals)\<close>: the template is looked up, then
  \<open>self.locals\<close> is read, and unpacking None with \<open>**\<close> is a TypeError.
\<close>

definition format_template :: "env \<Rightarrow> string \<Rightarrow> state \<Rightarrow> error + (string \<times> state)" where
  "format_template env key s =
     and_then (getitem (u_annotation s) key) (\<lambda>v.
       case v of
         PStr template \<Rightarrow>
           and_then (locals env s) (\<lambda>(l, s').
             case l of
               None \<Rightarrow> Inl (TypeError ''argument after ** must be a mapping, not NoneType'')
             | Some a \<Rightarrow> and_then (str_format template (heap s' a)) (\<lambda>text. Inr (text, s')))
       | PObject c \<Rightarrow> Inl (NotModelled ''format of an object'')
       | _ \<Rightarrow> Inl (AttributeError ''format''))"

text \<open>\<open>_format_annotation\<close>.\<close>

definition format_annotation :: "env \<Rightarrow> state \<Rightarrow> error + state" where
  "format_annotation env s =
     and_then (format_template env ''message'' s) (\<lambda>(formatted_message, s1).
     and_then (format_template env ''advice'' s1) (\<lambda>(formatted_advice, s2).
       (let message_lines = wrap env formatted_message 74;
            advice_lines = wrap env formatted_advice 64
        in and_then (setitem (u_annotation s2) ''message'' (PStr (join [NL] message_lines)))
             (\<lambda>a1.
           and_then (setitem a1 ''advice'' (PStr (join [NL, TAB] advice_lines)))
             (\<lambda>a2. Inr (s2\<lparr>u_annotation := a2\<rparr>))))))"

text \<open>\<open>_format_locals\<close>.\<close>

definition format_locals :: "env \<Rightarrow> state \<Rightarrow> error + (string \<times> state)" where
  "format_locals env s =
     and_then (locals env s) (\<lambda>(l, s').
       case l of
         None \<Rightarrow> Inl (AttributeError ''items'')
       | Some a \<Rightarrow>
           (let shown = filter (\<lambda>(k, v). k \<notin> set IGNORE_LOCALS \<and> \<not> startswith k ''_'')
                            (heap s' a)
            in Inr (join [NL, TAB] (map (\<lambda>(k, v). k @ ''='' @ v) shown), s')))"

text \<open>How \<open>str.format\<close> renders the value of a plain field.\<close>

definition field_text :: "pyval \<Rightarrow> error + string" where
  "field_text v =
     (case v of
        PStr t \<Rightarrow> Inr t
      | PNone \<Rightarrow> Inr ''None''
      | PInt i \<Rightarrow> Inr (str_int i)
      | _ \<Rightarrow> Inl (NotModelled ''str of a container or an object''))"

text \<open>
  \<open>_format_msg\<close>: the keyword arguments are evaluated in the order they are written.
\<close>

definition format_msg :: "env \<Rightarrow> state \<Rightarrow> error + (string \<times> state)" where
  "format_msg env s =
     and_then (getitem (u_annotation s) ''message'') (\<lambda>message.
     and_then (assert_expr env s) (\<lambda>(source, s1).
     and_then (getitem (u_annotation s1) ''advice'') (\<lambda>advice.
     and_then (format_locals env s1) (\<lambda>(locals_text, s2).
     and_then (field_text message) (\<lambda>m.
     and_then (field_text advice) (\<lambda>a.
       Inr (META_FORMAT_STRING (u_msg s2) m (case source of None \<Rightarrow> ''None'' | Some t \<Rightarrow> t)
              locals_text a, s2)))))))"

text \<open>The property \<open>formattedMsg\<close>.\<close>

definition formattedMsg :: "env \<Rightarrow> state \<Rightarrow> error + (string option \<times> state)" where
  "formattedMsg env s =
     (if (case u_formatted_msg s of None \<Rightarrow> True | Some t \<Rightarrow> t = [])
      then and_then (format_msg env s) (\<lambda>(text, s1).
             Inr (Some text, s1\<lparr>u_formatted_msg := Some text\<rparr>))
      else Inr (u_formatted_msg s, s))"

text \<open>
  \<open>__init__\<close>, given the store, the annotation and unittest's standard message.
  \<open>new_object\<close> is the object after the assignments that open \<open>__init__\<close>; the
  failure object exists only when neither \<open>_format_annotation\<close> nor the first
  \<open>formattedMsg\<close> raises.
\<close>

definition new_object :: "(nat \<Rightarrow> locals_dict) \<Rightarrow> nat \<Rightarrow> pyval \<Rightarrow> string \<Rightarrow> state" where
  "new_object h n annotation msg =
     \<lparr>heap = h, next_addr = n, u_annotation = annotation, u_msg = msg,
      u_locals = None, u_filename = None, u_linenumber = None,
      u_assert_expr = None, u_formatted_msg = None\<rparr>"

definition init ::
  "env \<Rightarrow> (nat \<Rightarrow> locals_dict) \<Rightarrow> nat \<Rightarrow> pyval \<Rightarrow> string \<Rightarrow> error + state" where
  "init env h n annotation msg =
     and_then (format_annotation env (new_object h n annotation msg)) (\<lambda>s1.
     and_then (formattedMsg env s1) (\<lambda>(text, s2). Inr s2))"

section \<open>Concrete inputs\<close>

text \<open>
  A test file of sixteen lines; the last statement of its test method, a call of
  \<open>assertEqual\<close>, spans lines 10 to 13; its syntax tree (only the shape \<open>_get_source\<close> looks at); the call
  stack when the assertion fails, with the store of the frames' locals; and the
  surroundings built from them (\<open>wrap\<close> leaves short texts on one line).
\<close>

definition example_lines :: "string list" where
  "example_lines = map (\<lambda>l. l @ [NL])
     [''import marbles'',
      '''',
      ''class ExampleTestCase(marbles.AnnotatedTestCase):'',
      '''',
      ''    def test_equal(self):'',
      ''        x = 5'',
      ''        y = 6'',
      ''        _scale = 1'',
      ''        advice = ADVICE'',
      ''        self.assertEqual('',
      ''            x,'',
      ''            y * _scale,'',
      ''            (MESSAGE, advice))'',
      '''',
      ''# end of the tests'',
      ''MESSAGE = None'']"

definition leaf :: "int \<Rightarrow> node" where
  "leaf n = Node False (Some n) []"

definition example_tree :: node where
  "example_tree =
     Node False None
       [Node True (Some 1) [leaf 1],
        Node True (Some 3)
          [Node False (Some 3) [leaf 3],
           Node True (Some 5)
             [Node False None [leaf 5],
              Node True (Some 6) [leaf 6, leaf 6],
              Node True (Some 7) [leaf 7, leaf 7],
              Node True (Some 8) [leaf 8, leaf 8],
              Node True (Some 9) [leaf 9, leaf 9],
              Node True (Some 10)
                [Node False (Some 10)
                   [Node False (Some 10) [leaf 10],
                    leaf 11,
                    Node False (Some 12) [leaf 12, leaf 12],
                    Node False (Some 13) [leaf 13, leaf 13]]]]],
        Node True (Some 16) [leaf 16, leaf 16]]"

definition example_frames :: "frame list" where
  "example_frames =
     [\<lparr>f_name = ''locals'', f_filename = ''marbles.py'', f_lineno = 116, f_locals = Some 0\<rparr>,
      \<lparr>f_name = ''fail'', f_filename = ''case.py'', f_lineno = 670, f_locals = Some 1\<rparr>,
      \<lparr>f_name = ''test_equal'', f_filename = ''example.py'', f_lineno = 13, f_locals = Some 2\<rparr>,
      \<lparr>f_name = ''test_runner'', f_filename = ''run.py'', f_lineno = 4, f_locals = Some 3\<rparr>]"

definition example_heap :: "nat \<Rightarrow> locals_dict" where
  "example_heap =
     (\<lambda>a. [])(0 := [(''self'', ''AnnotatedAssertionError()'')],
              1 := [(''self'', ''<ExampleTestCase>''), (''msg'', ''None'')],
              2 := [(''self'', ''<ExampleTestCase>''), (''x'', ''5''), (''y'', ''6''),
                    (''_scale'', ''1''), (''advice'', ''7'')],
              3 := [(''suite'', ''<TestSuite>'')])"

definition example_env :: env where
  "example_env =
     \<lparr>stack = example_frames,
      linecache = (\<lambda>f. if f = Some ''example.py'' then example_lines else []),
      ast_parse = (\<lambda>text. if text = [] then Inr (Node False None [])
                           else if text = concat example_lines then Inr example_tree
                           else Inl SyntaxError),
      wrap = (\<lambda>text width. [text])\<rparr>"

text \<open>
  A call stack whose test function has no local variable at all (a plain function that
  asserts through a module-level test case): its frame summary has no locals dict.
\<close>

definition frames_without_locals :: "frame list" where
  "frames_without_locals =
     [\<lparr>f_name = ''fail'', f_filename = ''case.py'', f_lineno = 670, f_locals = Some 1\<rparr>,
      \<lparr>f_name = ''test_plain'', f_filename = ''plain.py'', f_lineno = 3, f_locals = None\<rparr>]"

text \<open>
  The annotation of the example's assertion, the excerpt \<open>_get_source\<close> makes of the
  example file, and the report of the failure.
\<close>

definition example_annotation :: pyval where
  "example_annotation =
     PDict [KStr ''message'' \<mapsto> PStr ''x was {x}, not {y}'',
            KStr ''advice'' \<mapsto> PStr ''ask {self} about {_scale}'']"

definition example_excerpt :: string where
  "example_excerpt = join [NL]
     [''      9 advice = ADVICE'',
      '' >   10 self.assertEqual('',
      ''     11     x,'',
      ''     12     y * _scale,'',
      ''     13     (MESSAGE, advice))'',
      ''     14 '']"

definition example_report :: string where
  "example_report =
     ''5 != 6'' @ [NL] @ ''x was 5, not 6'' @ [NL, NL] @ ''Source:'' @ [NL] @ example_excerpt @ [NL]
     @ ''Locals:'' @ [NL, TAB] @ ''x=5'' @ [NL, TAB] @ ''y=6'' @ [NL]
     @ ''Advice:'' @ [NL, TAB] @ ''ask <ExampleTestCase> about 1'' @ [NL] @ ''    ''"

text \<open>
  The same stack for a test method named \<open>testEqual\<close> (unittest's own prefix is
  \<open>test\<close>), with an annotation whose templates name no variable; and the example's
  surroundings when the source of the test file cannot be read (the module was loaded
  from compiled code only), so that \<open>linecache\<close> has no lines for it.
\<close>

definition frames_camel_case :: "frame list" where
  "frames_camel_case =
     [\<lparr>f_name = ''locals'', f_filename = ''marbles.py'', f_lineno = 116, f_locals = Some 0\<rparr>,
      \<lparr>f_name = ''fail'', f_filename = ''case.py'', f_lineno = 670, f_locals = Some 1\<rparr>,
      \<lparr>f_name = ''testEqual'', f_filename = ''example.py'', f_lineno = 13, f_locals = Some 2\<rparr>,
      \<lparr>f_name = ''run'', f_filename = ''run.py'', f_lineno = 4, f_locals = Some 3\<rparr>]"

definition plain_annotation :: pyval where
  "plain_annotation =
     PDict [KStr ''message'' \<mapsto> PStr ''the values differ'',
            KStr ''advice'' \<mapsto> PStr ''check the inputs'']"

definition unreadable_env :: env where
  "unreadable_env = example_env\<lparr>linecache := (\<lambda>f. [])\<rparr>"


text \<open>
  The example file with one more statement after the assertion, on line 14, and its
  syntax tree.
\<close>

definition followed_tree :: node where
  "followed_tree =
     Node False None
       [Node True (Some 1) [leaf 1],
        Node True (Some 3)
          [Node False (Some 3) [leaf 3],
           Node True (Some 5)
             [Node False None [leaf 5],
              Node True (Some 6) [leaf 6, leaf 6],
              Node True (Some 7) [leaf 7, leaf 7],
              Node True (Some 8) [leaf 8, leaf 8],
              Node True (Some 9) [leaf 9, leaf 9],
              Node True (Some 10)
                [Node False (Some 10)
                   [Node False (Some 10) [leaf 10],
                    leaf 11,
                    Node False (Some 12) [leaf 12, leaf 12],
                    Node False (Some 13) [leaf 13, leaf 13]]],
              Node True (Some 14) [Node False (Some 14) [Node False (Some 14) [leaf 14], leaf 14]]]],
        Node True (Some 16) [leaf 16, leaf 16]]"

definition followed_env :: env where
  "followed_env =
     \<lparr>stack = example_frames,
      linecache = (\<lambda>f. if f = Some ''example.py''
                         then example_lines[13 := ''        self.assertTrue(x)'' @ [NL]] else []),
      ast_parse = (\<lambda>text. if text = [] then Inr (Node False None []) else Inr followed_tree),
      wrap = (\<lambda>text width. [text])\<rparr>"

text \<open>A mapping with both required keys and one more, used as a concrete input below.\<close>

definition annotation_with_extra_key :: "pykey \<Rightarrow> pyval option" where
  "annotation_with_extra_key =
     [KStr ''message'' \<mapsto> PStr ''m'', KStr ''advice'' \<mapsto> PStr ''a'', KStr ''extra'' \<mapsto> PNone]"


section \<open>Properties of the annotation normaliser and the wrapper\<close>

text \<open>
  C5: a two-element sequence \<open>(m, a)\<close> is coerced to the mapping
  \<open>{'message': m, 'advice': a}\<close>; a mapping is returned as it is; a value that is
  neither a sequence nor a mapping is None, an integer or an instance of some other
  class, and each raises AnnotationError with a text that ends in the name of its own
  type: \<open><class 'NoneType'>\<close>, \<open><class 'int'>\<close>, \<open><class 'c'>\<close> for the class \<open>c\<close>.
\<close>

theorem coerce_annotation_dict_shapes:
  "(sequence_items v = Some [m, a] \<longrightarrow>
      coerce_annotation_dict v = Inr (PDict [KStr ''message'' \<mapsto> m, KStr ''advice'' \<mapsto> a]))
   \<and> coerce_annotation_dict (PDict d) = Inr (PDict d)
   \<and> (sequence_items u = None \<and> \<not> is_mapping u \<longrightarrow>
        u = PNone \<or> (\<exists>i. u = PInt i) \<or> (\<exists>c. u = PObject c))
   \<and> coerce_annotation_dict PNone =
        Inl (AnnotationError (Text (''Annotation type not supported: <class ''
               @ [QUOTE] @ ''NoneType'' @ [QUOTE] @ ''>'')))
   \<and> coerce_annotation_dict (PInt i) =
        Inl (AnnotationError (Text (''Annotation type not supported: <class ''
               @ [QUOTE] @ ''int'' @ [QUOTE] @ ''>'')))
   \<and> coerce_annotation_dict (PObject c) =
        Inl (AnnotationError (Text (''Annotation type not supported: <class ''
               @ [QUOTE] @ c @ [QUOTE] @ ''>'')))"
proof (intro conjI impI)
  assume "sequence_items v = Some [m, a]"
  then show "coerce_annotation_dict v
      = Inr (PDict [KStr ''message'' \<mapsto> m, KStr ''advice'' \<mapsto> a])"
    by (simp add: coerce_annotation_dict_def REQUIRED_KEYS_def dict_of_pairs_def)
next
  show "coerce_annotation_dict (PDict d) = Inr (PDict d)"
    by (simp add: coerce_annotation_dict_def)
next
  assume "sequence_items u = None \<and> \<not> is_mapping u"
  then show "u = PNone \<or> (\<exists>i. u = PInt i) \<or> (\<exists>c. u = PObject c)"
    by (cases u) simp_all
next
  show "coerce_annotation_dict PNone =
        Inl (AnnotationError (Text (''Annotation type not supported: <class ''
               @ [QUOTE] @ ''NoneType'' @ [QUOTE] @ ''>'')))"
    by (simp add: coerce_annotation_dict_def class_repr_def)
next
  show "coerce_annotation_dict (PInt i) =
        Inl (AnnotationError (Text (''Annotation type not supported: <class ''
               @ [QUOTE] @ ''int'' @ [QUOTE] @ ''>'')))"
    by (simp add: coerce_annotation_dict_def class_repr_def)
next
  show "coerce_annotation_dict (PObject c) =
        Inl (AnnotationError (Text (''Annotation type not supported: <class ''
               @ [QUOTE] @ c @ [QUOTE] @ ''>'')))"
    by (simp add: coerce_annotation_dict_def class_repr_def)
qed

theorem coerce_annotation_dict_shapes_witness:
  "coerce_annotation_dict (PTuple [PStr ''m'', PStr ''a''])
       = Inr (PDict [KStr ''message'' \<mapsto> PStr ''m'', KStr ''advice'' \<mapsto> PStr ''a''])
   \<and> coerce_annotation_dict (PList [PInt 1, PNone])
       = Inr (PDict [KStr ''message'' \<mapsto> PInt 1, KStr ''advice'' \<mapsto> PNone])
   \<and> coerce_annotation_dict (PDict [KStr ''advice'' \<mapsto> PStr ''a''])
       = Inr (PDict [KStr ''advice'' \<mapsto> PStr ''a''])
   \<and> sequence_items (PObject ''set'') = None \<and> \<not> is_mapping (PObject ''set'')
   \<and> coerce_annotation_dict PNone =
        Inl (AnnotationError (Text (''Annotation type not supported: <class ''
               @ [QUOTE] @ ''NoneType'' @ [QUOTE] @ ''>'')))
   \<and> coerce_annotation_dict (PInt 3) =
        Inl (AnnotationError (Text (''Annotation type not supported: <class ''
               @ [QUOTE] @ ''int'' @ [QUOTE] @ ''>'')))
   \<and> coerce_annotation_dict (PObject ''set'') =
        Inl (AnnotationError (Text (''Annotation type not supported: <class ''
               @ [QUOTE] @ ''set'' @ [QUOTE] @ ''>'')))"
proof -
  note tuple = coerce_annotation_dict_shapes
      [where v = "PTuple [PStr ''m'', PStr ''a'']" and m = "PStr ''m''" and a = "PStr ''a''"
        and d = "[KStr ''advice'' \<mapsto> PStr ''a'']" and u = "PObject ''set''" and i = 3
        and c = "''set''"]
  note list = coerce_annotation_dict_shapes
      [where v = "PList [PInt 1, PNone]" and m = "PInt 1" and a = PNone,
        THEN conjunct1]
  show ?thesis
    using tuple list by simp
qed

text \<open>
  C10: a string of length at least two is a sequence, so it is not refused: it is zipped
  character by character against the required keys, and only its first two characters
  survive, as \<open>{'message': s[0], 'advice': s[1]}\<close>.
\<close>

theorem coerce_annotation_dict_string:
  "2 \<le> length s \<Longrightarrow>
   coerce_annotation_dict (PStr s)
     = Inr (PDict [KStr ''message'' \<mapsto> PStr [s ! 0], KStr ''advice'' \<mapsto> PStr [s ! 1]])"
proof -
  assume len: "2 \<le> length s"
  then obtain c d rest where s: "s = c # d # rest"
    by (cases s; cases "tl s") auto
  show ?thesis
    unfolding s by (simp add: coerce_annotation_dict_def REQUIRED_KEYS_def dict_of_pairs_def)
qed

theorem coerce_annotation_dict_string_witness:
  "(2::nat) \<le> length ''legacy''
   \<and> coerce_annotation_dict (PStr ''legacy'')
       = Inr (PDict [KStr ''message'' \<mapsto> PStr ''l'', KStr ''advice'' \<mapsto> PStr ''e''])"
  using coerce_annotation_dict_string [of "''legacy''"] by simp

lemma missing_keys_alt:
  "missing_keys m = {k. k \<in> {''message'', ''advice''} \<and> KStr k \<notin> dom m}"
  by (auto simp: missing_keys_def REQUIRED_KEYS_def)

text \<open>
  C3 as stated fails: the symmetric difference between the required keys and the keys of
  \<open>{'message': 'm', 'advice': 'a', 'extra': None}\<close> is not empty, and validation
  accepts that mapping.
\<close>

theorem validate_annotation_symmetric_counterexample:
  "(KStr ` set REQUIRED_KEYS - dom annotation_with_extra_key)
     \<union> (dom annotation_with_extra_key - KStr ` set REQUIRED_KEYS) \<noteq> {}
   \<and> validate_annotation (PDict annotation_with_extra_key) = Inr ()"
proof -
  have "KStr ''extra'' \<in> dom annotation_with_extra_key - KStr ` set REQUIRED_KEYS"
    by (simp add: annotation_with_extra_key_def REQUIRED_KEYS_def)
  moreover have "missing_keys annotation_with_extra_key = {}"
    by (auto simp: missing_keys_alt annotation_with_extra_key_def)
  ultimately show ?thesis
    by (auto simp: validate_annotation_def)
qed

text \<open>
  C3 (as the code has it): validation raises exactly when a required key is missing from
  the mapping (the one-sided difference \<open>required - keys\<close>; keys beyond the required two
  are accepted), the one error carries the whole set of missing keys, and when the
  annotation taken by the wrapper fails validation the wrapped assertion method is not
  run: whatever the method is, the wrapper's result is the error and the world is
  unchanged.
\<close>

theorem validate_annotation_raises_iff_missing:
  "validate_annotation (PDict m) =
     (if missing_keys m = {} then Inr ()
      else Inl (AnnotationError
             (TextSet ''Annotation missing required fields: '' (missing_keys m))))
   \<and> missing_keys m = {k. k \<in> {''message'', ''advice''} \<and> KStr k \<notin> dom m}
   \<and> (select_annotation args kwargs = Inr (ann, args', kwargs')
        \<and> validate_annotation ann = Inl e
      \<longrightarrow> (\<forall>attr :: 'w assertion. wrapper attr args kwargs w = (Inl e, w)))"
proof (intro conjI impI allI)
  show "validate_annotation (PDict m) =
     (if missing_keys m = {} then Inr ()
      else Inl (AnnotationError
             (TextSet ''Annotation missing required fields: '' (missing_keys m))))"
    by (simp add: validate_annotation_def Let_def)
next
  show "missing_keys m = {k. k \<in> {''message'', ''advice''} \<and> KStr k \<notin> dom m}"
    by (rule missing_keys_alt)
next
  fix attr :: "'w assertion"
  assume "select_annotation args kwargs = Inr (ann, args', kwargs')
        \<and> validate_annotation ann = Inl e"
  then show "wrapper attr args kwargs w = (Inl e, w)"
    by (simp add: wrapper_def)
qed

theorem validate_annotation_raises_iff_missing_witness:
  "validate_annotation (PDict [KStr ''message'' \<mapsto> PStr ''only a message''])
     = Inl (AnnotationError (TextSet ''Annotation missing required fields: '' {''advice''}))
   \<and> select_annotation [PInt 1, PTuple [PStr ''only a message'']] Map.empty
       = Inr (PDict [KStr ''message'' \<mapsto> PStr ''only a message''], [PInt 1], Map.empty)
   \<and> wrapper (\<lambda>args kwargs (calls :: nat). (Inr PNone, Suc calls))
        [PInt 1, PTuple [PStr ''only a message'']] Map.empty 0
       = (Inl (AnnotationError (TextSet ''Annotation missing required fields: '' {''advice''})), 0)"
proof -
  let ?m = "[KStr ''message'' \<mapsto> PStr ''only a message'']"
  have mk: "missing_keys ?m = {''advice''}"
    by (auto simp: missing_keys_alt)
  have sel: "select_annotation [PInt 1, PTuple [PStr ''only a message'']] Map.empty
       = Inr (PDict ?m, [PInt 1], Map.empty)"
    by (simp add: select_annotation_def coerce_annotation_dict_def REQUIRED_KEYS_def
        dict_of_pairs_def)
  have val: "validate_annotation (PDict ?m)
     = Inl (AnnotationError (TextSet ''Annotation missing required fields: '' {''advice''}))"
    using validate_annotation_raises_iff_missing [where m = ?m, THEN conjunct1] mk by simp
  from validate_annotation_raises_iff_missing
    [where m = ?m and args = "[PInt 1, PTuple [PStr ''only a message'']]" and kwargs = Map.empty
      and ann = "PDict ?m" and args' = "[PInt 1]" and kwargs' = Map.empty
      and e = "AnnotationError (TextSet ''Annotation missing required fields: '' {''advice''})"
      and w = "0::nat"]
    sel val
  have "wrapper (\<lambda>args kwargs (calls :: nat). (Inr PNone, Suc calls))
        [PInt 1, PTuple [PStr ''only a message'']] Map.empty 0
       = (Inl (AnnotationError (TextSet ''Annotation missing required fields: '' {''advice''})), 0)"
    by blast
  with sel val show ?thesis by simp
qed






section \<open>Properties of the failure object\<close>

lemma get_stack_loop_skip:
  "\<forall>f \<in> set before. \<not> startswith (f_name f) ''test_'' \<Longrightarrow>
   get_stack_loop (before @ frames) s = get_stack_loop frames s"
  by (induction before) auto

text \<open>
  C6 (as the code has it): when the first frame whose name starts with \<open>test_\<close> has a
  dict of captured locals, \<open>_get_stack\<close> takes locals, file name and line number from
  that frame, whatever frames follow it, and the locals it keeps are a new dict with the
  same items: a later change of the frame's own dict does not reach it.
\<close>

theorem get_stack_first_test_frame:
  assumes "stack env = before @ level # after"
    and "\<forall>f \<in> set before. \<not> startswith (f_name f) ''test_''"
    and "startswith (f_name level) ''test_''"
    and "f_locals level = Some a"
    and "a < next_addr s"
  shows "\<exists>s'. get_stack env s = Inr s'
           \<and> u_locals s' = Some (next_addr s)
           \<and> next_addr s \<noteq> a
           \<and> heap s' (next_addr s) = heap s a
           \<and> u_filename s' = Some (f_filename level)
           \<and> u_linenumber s' = Some (f_lineno level)
           \<and> (\<forall>items. ((heap s')(a := items)) (next_addr s) = heap s a)"
proof -
  have "get_stack env s = get_stack_loop (level # after) s"
    unfolding get_stack_def assms(1) using assms(2) by (rule get_stack_loop_skip)
  also have "\<dots> = Inr (s\<lparr>heap := (heap s)(next_addr s := heap s a),
                    next_addr := Suc (next_addr s),
                    u_locals := Some (next_addr s),
                    u_filename := Some (f_filename level),
                    u_linenumber := Some (f_lineno level)\<rparr>)"
    using assms(3,4) by simp
  finally show ?thesis
    using assms(5) by simp
qed

lemma sw_test [simp]:
  "startswith ''test_equal'' ''test_''" "startswith ''test_plain'' ''test_''"
  "\<not> startswith ''locals'' ''test_''" "\<not> startswith ''fail'' ''test_''"
  by (simp_all add: startswith_def)

theorem get_stack_first_test_frame_witness:
  "\<exists>s'. get_stack example_env (new_object example_heap 4 PNone ''5 != 6'') = Inr s'
      \<and> u_locals s' = Some 4
      \<and> heap s' 4 = [(''self'', ''<ExampleTestCase>''), (''x'', ''5''), (''y'', ''6''),
                    (''_scale'', ''1''), (''advice'', ''7'')]
      \<and> u_filename s' = Some ''example.py''
      \<and> u_linenumber s' = Some 13
      \<and> ((heap s')(2 := [])) 4 = heap s' 4"
proof -
  let ?s = "new_object example_heap 4 PNone ''5 != 6''"
  let ?level = "\<lparr>f_name = ''test_equal'', f_filename = ''example.py'', f_lineno = 13, f_locals = Some 2\<rparr>"
  have 1: "stack example_env =
      [\<lparr>f_name = ''locals'', f_filename = ''marbles.py'', f_lineno = 116, f_locals = Some 0\<rparr>,
       \<lparr>f_name = ''fail'', f_filename = ''case.py'', f_lineno = 670, f_locals = Some 1\<rparr>]
      @ ?level
      # [\<lparr>f_name = ''test_runner'', f_filename = ''run.py'', f_lineno = 4, f_locals = Some 3\<rparr>]"
    by (simp add: example_env_def example_frames_def)
  have 2: "\<forall>f \<in> set [\<lparr>f_name = ''locals'', f_filename = ''marbles.py'', f_lineno = 116, f_locals = Some 0\<rparr>,
       \<lparr>f_name = ''fail'', f_filename = ''case.py'', f_lineno = 670, f_locals = Some 1\<rparr>].
       \<not> startswith (f_name f) ''test_''"
    by simp
  have 3: "startswith (f_name ?level) ''test_''" by simp
  have 4: "f_locals ?level = Some 2" by simp
  have 5: "2 < next_addr ?s" by (simp add: new_object_def)
  from get_stack_first_test_frame [OF 1 2 3 4 5]
  show ?thesis
    by (auto simp: new_object_def example_heap_def)
qed

text \<open>
  C6 as stated fails on a stack whose first \<open>test_\<close> frame has no locals dict: \<open>level.locals\<close> is None and
  \<open>.copy()\<close> raises AttributeError, so nothing is captured.
\<close>

theorem get_stack_no_locals_counterexample:
  "startswith (f_name (frames_without_locals ! 1)) ''test_''
   \<and> get_stack (example_env\<lparr>stack := frames_without_locals\<rparr>)
        (new_object example_heap 4 PNone ''5 != 6'')
      = Inl (AttributeError ''copy'')"
  by (simp add: frames_without_locals_def get_stack_def)

lemma get_stack_loop_no_test_frame:
  "\<forall>f \<in> set frames. \<not> startswith (f_name f) ''test_'' \<Longrightarrow> get_stack_loop frames s = Inr s"
  by (induction frames) auto

lemma locals_without_test_frame:
  assumes "\<forall>f \<in> set (stack env). \<not> startswith (f_name f) ''test_''"
    and "u_locals s = None"
  shows "locals env s = Inr (None, s)"
  using assms by (simp add: locals_def get_stack_def get_stack_loop_no_test_frame)

lemma init_without_test_frame:
  assumes "\<forall>f \<in> set (stack env). \<not> startswith (f_name f) ''test_''"
    and "getitem annotation ''message'' = Inr (PStr template)"
  shows "init env h n annotation msg
           = Inl (TypeError ''argument after ** must be a mapping, not NoneType'')"
proof -
  let ?s = "new_object h n annotation msg"
  have "locals env ?s = Inr (None, ?s)"
    using assms(1) by (rule locals_without_test_frame) (simp add: new_object_def)
  moreover have "getitem (u_annotation ?s) ''message'' = Inr (PStr template)"
    using assms(2) by (simp add: new_object_def)
  ultimately have "format_template env ''message'' ?s
      = Inl (TypeError ''argument after ** must be a mapping, not NoneType'')"
    by (simp add: format_template_def)
  then show ?thesis
    by (simp add: init_def format_annotation_def)
qed

text \<open>
  C7 (the code at a failing input): for a test method named \<open>testEqual\<close> no frame
  starts with \<open>test_\<close>; \<open>_get_stack\<close> leaves the object as it is, \<open>self.locals\<close> is
  None, and \<open>__init__\<close> ends in the TypeError of \<open>format(**None)\<close> although the templates
  name no variable.
\<close>

theorem init_camel_case_test_raises_TypeError:
  "get_stack (example_env\<lparr>stack := frames_camel_case\<rparr>)
       (new_object example_heap 4 plain_annotation ''5 != 6'')
     = Inr (new_object example_heap 4 plain_annotation ''5 != 6'')
   \<and> init (example_env\<lparr>stack := frames_camel_case\<rparr>) example_heap 4 plain_annotation ''5 != 6''
     = Inl (TypeError ''argument after ** must be a mapping, not NoneType'')"
proof -
  have no: "\<forall>f \<in> set (stack (example_env\<lparr>stack := frames_camel_case\<rparr>)).
              \<not> startswith (f_name f) ''test_''"
    by (simp add: frames_camel_case_def startswith_def)
  have g: "getitem plain_annotation ''message'' = Inr (PStr ''the values differ'')"
    by (simp add: getitem_def plain_annotation_def)
  show ?thesis
    using no g by (simp add: init_without_test_frame get_stack_def get_stack_loop_no_test_frame)
qed

lemma walk_loop_no_match:
  "\<forall>n \<in> set nodes. lineno n \<noteq> line \<or> line = None \<Longrightarrow>
   walk_loop env file line leading following nodes statement = Inr None"
  by (induction nodes arbitrary: statement) (auto simp: Let_def)

lemma get_source_no_match:
  assumes "ast_parse env (concat (linecache env file)) = Inr tree"
    and "\<forall>n \<in> set (ast_walk tree). lineno n \<noteq> line \<or> line = None"
  shows "get_source env file line leading following = Inl (UnboundLocalError ''source'')"
  using assms by (simp add: get_source_def walk_loop_no_match)

lemmas object_defs =
  init_def new_object_def format_annotation_def format_template_def locals_def filename_def
  linenumber_def get_stack_def getitem_def setitem_def format_msg_def formattedMsg_def
  assert_expr_def format_locals_def field_text_def startswith_def

text \<open>
  C2 (the code at a failing input): when no node of the tree has the failing line, here
  because the source cannot be read and the tree is empty, \<open>__init__\<close> ends in
  UnboundLocalError: no report is made.
\<close>

theorem init_unreadable_source_raises_UnboundLocalError:
  "init unreadable_env example_heap 4 plain_annotation ''5 != 6''
     = Inl (UnboundLocalError ''source'')"
proof -
  have src: "get_source unreadable_env (Some ''example.py'') (Some 13) 1 2
      = Inl (UnboundLocalError ''source'')"
    by (rule get_source_no_match [where tree = "Node False None []"])
       (simp_all add: unreadable_env_def example_env_def ast_walk_def)
  have env: "stack unreadable_env = example_frames" "wrap unreadable_env = (\<lambda>text width. [text])"
    by (simp_all add: unreadable_env_def example_env_def)
  show ?thesis
    by (simp add: object_defs env example_frames_def example_heap_def plain_annotation_def src)
qed

lemma init_example:
  "(case init example_env example_heap 4 example_annotation ''5 != 6'' of
      Inl e \<Rightarrow> False
    | Inr s \<Rightarrow> u_formatted_msg s = Some example_report)"
  by code_simp

lemma META_FORMAT_STRING_nonempty: "META_FORMAT_STRING a b c d e \<noteq> []"
  by (simp add: META_FORMAT_STRING_def)

lemma formattedMsg_sets_memo:
  assumes "formattedMsg env s = Inr (r, s')"
  shows "\<exists>t. r = Some t \<and> t \<noteq> [] \<and> u_formatted_msg s' = Some t"
proof (cases "case u_formatted_msg s of None \<Rightarrow> True | Some t \<Rightarrow> t = []")
  case True
  with assms obtain report s1 where "format_msg env s = Inr (report, s1)"
    and r: "r = Some report" and s': "s' = s1\<lparr>u_formatted_msg := Some report\<rparr>"
    by (cases "format_msg env s") (auto simp: formattedMsg_def)
  then obtain a b c d e where "report = META_FORMAT_STRING a b c d e"
    by (auto simp: format_msg_def and_then_def split: sum.splits prod.splits)
  then show ?thesis
    using r s' by (simp add: META_FORMAT_STRING_nonempty)
next
  case False
  with assms show ?thesis
    by (auto simp: formattedMsg_def split: option.splits)
qed

lemma formattedMsg_reads_memo:
  assumes "u_formatted_msg s = Some t" and "t \<noteq> []"
  shows "formattedMsg env s = Inr (Some t, s)"
  using assms by (simp add: formattedMsg_def)

lemma init_sets_memo:
  assumes "init env h n annotation msg = Inr s"
  shows "\<exists>t. t \<noteq> [] \<and> u_formatted_msg s = Some t"
proof -
  from assms obtain s1 r where "formattedMsg env s1 = Inr (r, s)"
    by (auto simp: init_def and_then_def split: sum.splits prod.splits)
  then show ?thesis
    by (blast dest: formattedMsg_sets_memo)
qed

text \<open>
  C9: once the failure object is constructed, \<open>formattedMsg\<close> returns the same text at
  every access and leaves the object as it is, whatever the call stack, the source
  files and the store of locals have become.
\<close>

theorem formattedMsg_memoized:
  assumes "init env h n annotation msg = Inr s"
  shows "\<exists>t. formattedMsg env1 s = Inr (Some t, s)
           \<and> formattedMsg env2 (s\<lparr>heap := h2, next_addr := n2\<rparr>)
               = Inr (Some t, s\<lparr>heap := h2, next_addr := n2\<rparr>)"
proof -
  from init_sets_memo [OF assms] obtain t where t: "t \<noteq> []" "u_formatted_msg s = Some t"
    by blast
  have "formattedMsg env1 s = Inr (Some t, s)"
    using t by (simp add: formattedMsg_reads_memo)
  moreover have "formattedMsg env2 (s\<lparr>heap := h2, next_addr := n2\<rparr>)
               = Inr (Some t, s\<lparr>heap := h2, next_addr := n2\<rparr>)"
    using t by (simp add: formattedMsg_reads_memo)
  ultimately show ?thesis by blast
qed

theorem formattedMsg_memoized_witness:
  "\<exists>s. init example_env example_heap 4 example_annotation ''5 != 6'' = Inr s
      \<and> formattedMsg (example_env\<lparr>stack := []\<rparr>) s = Inr (Some example_report, s)
      \<and> formattedMsg (example_env\<lparr>stack := [], linecache := (\<lambda>f. [])\<rparr>)
            (s\<lparr>heap := (\<lambda>a. []), next_addr := 0\<rparr>)
          = Inr (Some example_report, s\<lparr>heap := (\<lambda>a. []), next_addr := 0\<rparr>)"
proof -
  from init_example obtain s
    where s: "init example_env example_heap 4 example_annotation ''5 != 6'' = Inr s"
      and m: "u_formatted_msg s = Some example_report"
    by (cases "init example_env example_heap 4 example_annotation ''5 != 6''") auto
  from formattedMsg_memoized [OF s, where ?env1.0 = "example_env\<lparr>stack := []\<rparr>"
      and ?env2.0 = "example_env\<lparr>stack := [], linecache := (\<lambda>f. [])\<rparr>"
      and ?h2.0 = "\<lambda>a. []" and ?n2.0 = 0]
  obtain t where 1: "formattedMsg (example_env\<lparr>stack := []\<rparr>) s = Inr (Some t, s)"
    and 2: "formattedMsg (example_env\<lparr>stack := [], linecache := (\<lambda>f. [])\<rparr>)
            (s\<lparr>heap := (\<lambda>a. []), next_addr := 0\<rparr>)
          = Inr (Some t, s\<lparr>heap := (\<lambda>a. []), next_addr := 0\<rparr>)"
    by blast
  have "example_report \<noteq> []"
    by (simp add: example_report_def)
  with m have "formattedMsg (example_env\<lparr>stack := []\<rparr>) s = Inr (Some example_report, s)"
    by (simp add: formattedMsg_def)
  with 1 have "t = example_report" by simp
  with s 1 2 show ?thesis by blast
qed

text \<open>
  Positional fields against no positional argument: automatic numbering, an index, the
  largest index a 64-bit build reads, and the first one it refuses.
\<close>

lemma format_field_positional:
  "format_field [] []
     = Inl (IndexError ''Replacement index out of range for positional args tuple'')"
  "format_field ''0'' [(''x'', ''5'')]
     = Inl (IndexError ''Replacement index out of range for positional args tuple'')"
  "format_field ''9223372036854775807'' []
     = Inl (IndexError ''Replacement index out of range for positional args tuple'')"
  "format_field ''9223372036854775808'' []
     = Inl (ValueError ''Too many decimal digits in format string'')"
  by (simp_all add: format_field_def index_of_digits_def digit_value_def PY_SSIZE_T_MAX_def)








lemma split_nl_nonempty [simp]: "split_nl s \<noteq> []"
  by (induction s) (auto split: list.splits)

lemma split_nl_no_newline: "NL \<notin> set b \<Longrightarrow> split_nl b = [b]"
  by (induction b) auto

lemma split_nl_line: "NL \<notin> set b \<Longrightarrow> split_nl (b @ NL # rest) = b # split_nl rest"
  by (induction b) (auto split: list.splits)

lemma split_nl_join:
  "xs \<noteq> [] \<Longrightarrow> \<forall>x \<in> set xs. NL \<notin> set x \<Longrightarrow> split_nl (join [NL] xs) = xs"
proof (induction "[NL]" xs rule: join.induct)
  case 1
  then show ?case by simp
next
  case (2 x)
  then show ?case by (simp add: split_nl_no_newline)
next
  case (3 x y ys)
  then show ?case by (simp add: split_nl_line)
qed

lemma join_lines: "concat (map (\<lambda>b. b @ [NL]) bs) = join [NL] (bs @ [[]])"
proof (induction bs)
  case Nil
  then show ?case by simp
next
  case (Cons b bs)
  then show ?case by (cases bs) simp_all
qed

lemma whitespace_only_sub_newline: "NL \<notin> set l \<Longrightarrow> NL \<notin> set (whitespace_only_sub l)"
  by (simp add: whitespace_only_sub_def)

lemma remove_margin_newline: "NL \<notin> set l \<Longrightarrow> NL \<notin> set (remove_margin m l)"
  by (auto simp: remove_margin_def dest: in_set_dropD)

lemma dedent_shape:
  "\<exists>g. (g = id \<or> (\<exists>m. g = remove_margin m))
       \<and> dedent text = join [NL] (map g (map whitespace_only_sub (split_nl text)))"
proof (cases "foldl next_margin None
        (map (takeWhile is_blank) (filter (\<lambda>l. l \<noteq> []) (map whitespace_only_sub (split_nl text))))")
  case None
  then have "dedent text = join [NL] (map id (map whitespace_only_sub (split_nl text)))"
    by (simp add: dedent_def)
  then show ?thesis by blast
next
  case (Some m)
  show ?thesis
  proof (cases "m = []")
    case True
    with Some have "dedent text = join [NL] (map id (map whitespace_only_sub (split_nl text)))"
      by (simp add: dedent_def)
    then show ?thesis by blast
  next
    case False
    with Some have "dedent text
        = join [NL] (map (remove_margin m) (map whitespace_only_sub (split_nl text)))"
      by (simp add: dedent_def)
    then show ?thesis by blast
  qed
qed

lemma dedent_keeps_lines:
  assumes "\<forall>b \<in> set bs. NL \<notin> set b"
  shows "length (butlast (split_nl (dedent (concat (map (\<lambda>b. b @ [NL]) bs))))) = length bs"
proof -
  let ?text = "concat (map (\<lambda>b. b @ [NL]) bs)"
  have "split_nl ?text = bs @ [[]]"
    unfolding join_lines using assms by (intro split_nl_join) auto
  moreover obtain g where g: "g = id \<or> (\<exists>m. g = remove_margin m)"
    and d: "dedent ?text = join [NL] (map g (map whitespace_only_sub (split_nl ?text)))"
    using dedent_shape by blast
  ultimately have d': "dedent ?text = join [NL] (map g (map whitespace_only_sub (bs @ [[]])))"
    by simp
  have free: "\<forall>x \<in> set (map g (map whitespace_only_sub (bs @ [[]]))). NL \<notin> set x"
  proof -
    have "\<And>l. NL \<notin> set l \<Longrightarrow> NL \<notin> set (g (whitespace_only_sub l))"
      using g by (auto simp: whitespace_only_sub_newline remove_margin_newline)
    then show ?thesis using assms by auto
  qed
  have "split_nl (dedent ?text) = map g (map whitespace_only_sub (bs @ [[]]))"
    unfolding d' using free by (intro split_nl_join) auto
  then show ?thesis by simp
qed

lemma tracked_statement:
  "filter is_stmt nodes \<noteq> [] \<Longrightarrow>
   fold (\<lambda>n st. if is_stmt n then Some n else st) nodes statement
     = Some (last (filter is_stmt nodes))"
  by (induction nodes rule: rev_induct) auto

lemma walk_loop_first_hit:
  assumes "\<forall>n \<in> set before. lineno n \<noteq> Some ln" and "lineno hit = Some ln"
  shows "walk_loop env file (Some ln) leading following (before @ hit # rest) statement
     = (case fold (\<lambda>n st. if is_stmt n then Some n else st) (before @ [hit]) statement of
          None \<Rightarrow> Inl (UnboundLocalError ''statement'')
        | Some st \<Rightarrow>
            (case lineno st of
               None \<Rightarrow> Inl (AttributeError ''lineno'')
             | Some first \<Rightarrow>
                 Inr (Some (first, [first - leading .. ln + following - 1],
                            map (getline env file) [first - leading .. ln + following - 1]))))"
  using assms by (induction before arbitrary: statement) (auto simp: Let_def split: option.splits)

lemma getline_in_range:
  "1 \<le> i \<Longrightarrow> i \<le> int (length (linecache env file)) \<Longrightarrow>
   getline env file i = linecache env file ! nat (i - 1)"
  by (simp add: getline_def)

lemma newline_terminated_body:
  "newline_terminated l \<Longrightarrow> l = butlast l @ [NL] \<and> NL \<notin> set (butlast l)"
  by (auto simp: newline_terminated_def) (metis append_butlast_last_id)

lemma length_six:
  "length xs = 6 \<Longrightarrow> \<exists>a b c d e f. xs = [a, b, c, d, e, f]"
  by (auto simp: eval_nat_numeral length_Suc_conv)

text \<open>
  C1 (as the code has it): take a file of at least 14 newline-terminated lines whose
  tree is walked so that, at the first node on line 13, the statement node seen last is
  the one that starts on line 10. Then \<open>_get_source\<close> with \<open>leading=1\<close> and
  \<open>following=2\<close> returns the dedented lines 9 to 14 of the file and no more
  (\<open>range\<close> stops before \<open>13 + 2\<close>), line 10 after \<open>>\<close>, every other line after a
  space, each with its number.
\<close>

theorem get_source_excerpt:
  assumes lines: "\<forall>l \<in> set (linecache env file). newline_terminated l"
    and len: "14 \<le> length (linecache env file)"
    and parse: "ast_parse env (concat (linecache env file)) = Inr tree"
    and walk: "ast_walk tree = before @ hit # rest"
    and before: "\<forall>n \<in> set before. lineno n \<noteq> Some 13"
    and hit: "lineno hit = Some 13"
    and stmt: "filter is_stmt (before @ [hit]) \<noteq> []"
    and first: "lineno (last (filter is_stmt (before @ [hit]))) = Some 10"
  shows "\<exists>d9 d10 d11 d12 d13 d14.
           butlast (split_nl (dedent (concat
               (map (\<lambda>i. linecache env file ! i) [8, 9, 10, 11, 12, 13]))))
             = [d9, d10, d11, d12, d13, d14]
           \<and> get_source env file (Some 13) 1 2
               = Inr (join [NL]
                   [format_line CHR '' '' 9 d9, format_line CHR ''>'' 10 d10,
                    format_line CHR '' '' 11 d11, format_line CHR '' '' 12 d12,
                    format_line CHR '' '' 13 d13, format_line CHR '' '' 14 d14])"
proof -
  let ?source = "map (\<lambda>i. linecache env file ! i) [8, 9, 10, 11, 12, 13::nat]"
  let ?ds = "butlast (split_nl (dedent (concat ?source)))"
  have src: "map (getline env file) [9, 10, 11, 12, 13, 14] = ?source"
    using len by (simp add: getline_in_range)
  have loop: "walk_loop env file (Some 13) 1 2 (ast_walk tree) None
      = Inr (Some (10, [9, 10, 11, 12, 13, 14], ?source))"
    unfolding walk walk_loop_first_hit [OF before hit] tracked_statement [OF stmt]
    using first src by (simp add: upto_rec1)
  have "set ?source \<subseteq> set (linecache env file)"
    using len by auto
  then have nt: "\<forall>l \<in> set ?source. newline_terminated l"
    using lines by blast
  have "?source = map (\<lambda>b. b @ [NL]) (map butlast ?source)"
    using nt newline_terminated_body by (simp del: append_butlast_last_id butlast_snoc)
  moreover have "\<forall>b \<in> set (map butlast ?source). NL \<notin> set b"
    using nt newline_terminated_body by auto
  ultimately have "length ?ds = length (map butlast ?source)"
    using dedent_keeps_lines [of "map butlast ?source"] by simp
  then have "length ?ds = 6" by simp
  then obtain d9 d10 d11 d12 d13 d14 where ds: "?ds = [d9, d10, d11, d12, d13, d14]"
    using length_six by blast
  have "get_source env file (Some 13) 1 2
               = Inr (join [NL]
                   [format_line CHR '' '' 9 d9, format_line CHR ''>'' 10 d10,
                    format_line CHR '' '' 11 d11, format_line CHR '' '' 12 d12,
                    format_line CHR '' '' 13 d13, format_line CHR '' '' 14 d14])"
    unfolding get_source_def parse and_then_simps loop using ds by simp
  with ds show ?thesis by blast
qed

text \<open>
  The walk is breadth first: a statement that follows the failing one in the same block
  is seen before the failing statement's own sub-expressions, and the excerpt is built
  around it instead.
\<close>

lemma get_source_followed_statement:
  "get_source followed_env (Some ''example.py'') (Some 13) 1 2
     = Inr (join [NL] [''     13     (MESSAGE, advice))'', '' >   14 self.assertTrue(x)''])"
  by code_simp

text \<open>
  C1 as stated fails: in the example file the call of \<open>assertEqual\<close> spans lines 10
  to 13 and line 15 exists; the excerpt for line 13 ends with line 14.
\<close>

theorem get_source_stops_at_line_14_counterexample:
  "getline example_env (Some ''example.py'') 15 = ''# end of the tests'' @ [NL]
   \<and> get_source example_env (Some ''example.py'') (Some 13) 1 2 = Inr example_excerpt
   \<and> split_nl example_excerpt =
       [''      9 advice = ADVICE'',
        '' >   10 self.assertEqual('',
        ''     11     x,'',
        ''     12     y * _scale,'',
        ''     13     (MESSAGE, advice))'',
        ''     14 '']
   \<and> format_line CHR '' '' 15 ''# end of the tests'' \<notin> set (split_nl example_excerpt)"
  by code_simp

theorem get_source_excerpt_witness:
  "list_all newline_terminated (linecache example_env (Some ''example.py''))
   \<and> length (linecache example_env (Some ''example.py'')) = 16
   \<and> get_source example_env (Some ''example.py'') (Some 13) 1 2 = Inr example_excerpt"
proof -
  let ?file = "Some ''example.py''"
  let ?P = "\<lambda>n. lineno n \<noteq> Some 13"
  let ?w = "ast_walk example_tree"
  have nt: "list_all newline_terminated (linecache example_env ?file)"
    by code_simp
  have len: "length (linecache example_env ?file) = 16"
    by code_simp
  have 1: "\<forall>l \<in> set (linecache example_env ?file). newline_terminated l"
    using nt by (simp add: list_all_iff)
  have 2: "14 \<le> length (linecache example_env ?file)"
    using len by simp
  have 3: "ast_parse example_env (concat (linecache example_env ?file)) = Inr example_tree"
    by code_simp
  have "dropWhile ?P ?w \<noteq> []"
    by code_simp
  then have 4: "?w = takeWhile ?P ?w @ hd (dropWhile ?P ?w) # tl (dropWhile ?P ?w)"
    by simp
  have 5: "\<forall>n \<in> set (takeWhile ?P ?w). lineno n \<noteq> Some 13"
    by (blast dest: set_takeWhileD)
  have 6: "lineno (hd (dropWhile ?P ?w)) = Some 13"
    by code_simp
  have 7: "filter is_stmt (takeWhile ?P ?w @ [hd (dropWhile ?P ?w)]) \<noteq> []"
    by code_simp
  have 8: "lineno (last (filter is_stmt (takeWhile ?P ?w @ [hd (dropWhile ?P ?w)]))) = Some 10"
    by code_simp
  have ds: "butlast (split_nl (dedent (concat
               (map (\<lambda>i. linecache example_env ?file ! i) [8, 9, 10, 11, 12, 13]))))
      = [''advice = ADVICE'', ''self.assertEqual('', ''    x,'', ''    y * _scale,'',
         ''    (MESSAGE, advice))'', []]"
    by code_simp
  have ex: "join [NL]
      [format_line CHR '' '' 9 ''advice = ADVICE'', format_line CHR ''>'' 10 ''self.assertEqual('',
       format_line CHR '' '' 11 ''    x,'', format_line CHR '' '' 12 ''    y * _scale,'',
       format_line CHR '' '' 13 ''    (MESSAGE, advice))'', format_line CHR '' '' 14 []]
      = example_excerpt"
    by code_simp
  from get_source_excerpt [OF 1 2 3 4 5 6 7 8]
  have "get_source example_env ?file (Some 13) 1 2 = Inr example_excerpt"
    unfolding ds using ex by auto
  with nt len show ?thesis by simp
qed

end
